theory Spec2Isabelle
  imports Main
begin

section \<open>Compile-time side: types, callable signatures and the introspector\<close>

text \<open>
  The header \<^verbatim>\<open>scopefn.hpp\<close> is a template library: part of what it does happens
  while the compiler instantiates its templates (deduced types, \<^verbatim>\<open>static_assert\<close>),
  the rest when the instantiated functions run. The first half of this theory embeds
  the compile-time part as functions on descriptions of C++ types, the second half
  the run-time part as functions on an explicit memory.

  A C++ type is described by its unqualified object type (\<open>core\<close>), its top-level
  \<^verbatim>\<open>const\<close>/\<^verbatim>\<open>volatile\<close> qualifiers and whether it is a reference. For a reference
  the qualifiers are those of the type referred to, as in \<^verbatim>\<open>const Animal&\<close>.
\<close>

datatype core_type = Void | Object string

datatype ref_kind = NoRef | LvalueRef | RvalueRef

record cpp_type =
  is_const :: bool
  is_volatile :: bool
  refkind :: ref_kind
  core :: core_type

text \<open>
  \<^verbatim>\<open>std::remove_reference\<close> and \<^verbatim>\<open>std::remove_cv\<close>. A reference type has no
  top-level qualifiers of its own, so \<^verbatim>\<open>remove_cv\<close> leaves it alone.
\<close>

definition remove_reference :: "cpp_type \<Rightarrow> cpp_type" where
  "remove_reference t = t\<lparr>refkind := NoRef\<rparr>"

definition remove_cv :: "cpp_type \<Rightarrow> cpp_type" where
  "remove_cv t =
     (if refkind t = NoRef then t\<lparr>is_const := False, is_volatile := False\<rparr> else t)"

text \<open>
  \<^verbatim>\<open>template<typename T>
  using base_type = typename std::remove_cv<typename std::remove_reference<T>::type>::type;\<close>
\<close>

definition base_type :: "cpp_type \<Rightarrow> cpp_type" where
  "base_type t = remove_cv (remove_reference t)"

text \<open>
  A callable is described by the signature of its one call operator: the declared
  parameters, each with its type and whether it has a default argument, and the
  declared (or deduced) return type. A callable with several call operators or a
  generic one has no such description; \<^verbatim>\<open>std::function\<close> cannot deduce from it
  and every introspecting combinator refuses it.
\<close>

record param =
  ptype :: cpp_type
  has_default :: bool

record callable_type =
  params :: "param list"
  ret :: cpp_type

text \<open>
  \<^verbatim>\<open>std::function(std::declval<T>())\<close>: the deduction guide of \<^verbatim>\<open>std::function\<close>
  reads the type of \<^verbatim>\<open>&T::operator()\<close> and yields \<^verbatim>\<open>std::function<R(Args...)>\<close>.
  Default arguments are not part of that type.
\<close>

datatype fn_type = Fn cpp_type "cpp_type list"

definition std_function :: "callable_type \<Rightarrow> fn_type" where
  "std_function L = Fn (ret L) (map ptype (params L))"

text \<open>
  \<^verbatim>\<open>FuncType(std::function<RT(AT)>)\<close> deduces \<open>RT\<close> and \<open>AT\<close> from a function type
  with exactly one parameter; \<^verbatim>\<open>FuncTypeNoArg(std::function<RT(void)>)\<close> deduces
  \<open>RT\<close> from one with none. On any other function type the deduction fails.
\<close>

fun FuncType :: "fn_type \<Rightarrow> (cpp_type \<times> cpp_type) option" where
  "FuncType (Fn rt [at]) = Some (rt, at)"
| "FuncType (Fn rt ats) = None"

fun FuncTypeNoArg :: "fn_type \<Rightarrow> cpp_type option" where
  "FuncTypeNoArg (Fn rt []) = Some rt"
| "FuncTypeNoArg (Fn rt ats) = None"

record reflection =
  return_type :: cpp_type
  argument_type :: cpp_type

definition LambdaReflection :: "callable_type \<Rightarrow> reflection option" where
  "LambdaReflection T =
     (case FuncType (std_function T) of
        None \<Rightarrow> None
      | Some (rt, at) \<Rightarrow>
          Some \<lparr>return_type = base_type rt, argument_type = base_type at\<rparr>)"

definition LambdaReflectionNoArg :: "callable_type \<Rightarrow> cpp_type option" where
  "LambdaReflectionNoArg T =
     (case FuncTypeNoArg (std_function T) of
        None \<Rightarrow> None
      | Some rt \<Rightarrow> Some (base_type rt))"

subsection \<open>What the compiler says to each use of a combinator\<close>

text \<open>
  A use of a combinator is accepted when the list of diagnostics is empty.
  \<^item> \<open>StaticAssert msg\<close>: a \<^verbatim>\<open>static_assert\<close> of the header failed, with its message;
  \<^item> \<open>DeductionFailure\<close>: \<^verbatim>\<open>LambdaReflection<L>\<close> or \<^verbatim>\<open>LambdaReflectionNoArg<L>\<close>
    names no type, so the declaration that needs it cannot be instantiated;
  \<^item> \<open>NotInvocable\<close>: a call expression of the header (\<^verbatim>\<open>lambda()\<close>,
    \<^verbatim>\<open>lambda(*this)\<close>, the construction of the \<^verbatim>\<open>std::function\<close> member) is
    ill-formed for this callable;
  \<^item> \<open>NoMatchingOperator\<close>: no \<^verbatim>\<open>operator|\<close> of the header takes the right operand.
\<close>

datatype diagnostic =
  StaticAssert string
| DeductionFailure
| NotInvocable
| NoMatchingOperator

definition let_message :: string where
  "let_message = ''Scope function `let` argument type must match context object type''"

definition also_message :: string where
  "also_message = ''Scope function `also` argument type must match context object type''"

definition bar_also_message :: string where
  "bar_also_message =
     ''Scope function `also` argument type must match return type which is the context object type''"

text \<open>
  \<^verbatim>\<open>lambda()\<close> is well-formed when every declared parameter has a default argument.
  A callable whose unqualified parameter type is \<open>A\<close> can be called with an lvalue
  of type \<open>A\<close> unless the parameter is an rvalue reference.
\<close>

definition invocable_no_args :: "callable_type \<Rightarrow> bool" where
  "invocable_no_args L = list_all has_default (params L)"

definition invocable_with_lvalue :: "callable_type \<Rightarrow> bool" where
  "invocable_with_lvalue L = list_all (\<lambda>p. refkind (ptype p) \<noteq> RvalueRef) (params L)"

text \<open>
  The four members of \<^verbatim>\<open>ScopeFunctions<Base>\<close>. \<^verbatim>\<open>let\<close> and \<^verbatim>\<open>run\<close> name the
  introspector in their return type; \<^verbatim>\<open>let\<close> and \<^verbatim>\<open>also\<close> assert that the argument
  type is \<open>Base\<close>; \<^verbatim>\<open>apply\<close> does neither and only calls \<^verbatim>\<open>lambda()\<close>. Where the
  assertion fails the call in the body may be ill-formed as well; the model reports
  the assertion.
\<close>

definition ScopeFunctions_let_check :: "cpp_type \<Rightarrow> callable_type \<Rightarrow> diagnostic list" where
  "ScopeFunctions_let_check Base L =
     (case LambdaReflection L of
        None \<Rightarrow> [DeductionFailure]
      | Some r \<Rightarrow>
          if argument_type r \<noteq> Base then [StaticAssert let_message]
          else if invocable_with_lvalue L then [] else [NotInvocable])"

definition ScopeFunctions_run_check :: "cpp_type \<Rightarrow> callable_type \<Rightarrow> diagnostic list" where
  "ScopeFunctions_run_check Base L =
     (case LambdaReflectionNoArg L of
        None \<Rightarrow> [DeductionFailure]
      | Some rt \<Rightarrow> [])"

definition ScopeFunctions_apply_check :: "cpp_type \<Rightarrow> callable_type \<Rightarrow> diagnostic list" where
  "ScopeFunctions_apply_check Base L =
     (if invocable_no_args L then [] else [NotInvocable])"

definition ScopeFunctions_also_check :: "cpp_type \<Rightarrow> callable_type \<Rightarrow> diagnostic list" where
  "ScopeFunctions_also_check Base L =
     (case LambdaReflection L of
        None \<Rightarrow> [DeductionFailure]
      | Some r \<Rightarrow>
          if Base \<noteq> argument_type r then [StaticAssert also_message]
          else if invocable_with_lvalue L then [] else [NotInvocable])"



text \<open>
  Constructing a freestanding wrapper instantiates the class template: its aliases
  \<open>ARG\<close> and \<open>RT\<close> need the introspector, and its member
  \<^verbatim>\<open>std::function<RT(ARG&)> fun\<close> (or \<^verbatim>\<open>std::function<RT(void)> fun\<close>) is
  initialised from the callable.
\<close>

definition let_wrapper_check :: "callable_type \<Rightarrow> diagnostic list" where
  "let_wrapper_check L =
     (case LambdaReflection L of
        None \<Rightarrow> [DeductionFailure]
      | Some r \<Rightarrow> if invocable_with_lvalue L then [] else [NotInvocable])"

definition also_wrapper_check :: "callable_type \<Rightarrow> diagnostic list" where
  "also_wrapper_check L =
     (case LambdaReflection L of
        None \<Rightarrow> [DeductionFailure]
      | Some r \<Rightarrow> if invocable_with_lvalue L then [] else [NotInvocable])"

definition run_wrapper_check :: "callable_type \<Rightarrow> diagnostic list" where
  "run_wrapper_check L =
     (case LambdaReflectionNoArg L of
        None \<Rightarrow> [DeductionFailure]
      | Some rt \<Rightarrow> [])"

definition with_wrapper_check :: "callable_type \<Rightarrow> diagnostic list" where
  "with_wrapper_check L =
     (case LambdaReflectionNoArg L of
        None \<Rightarrow> [DeductionFailure]
      | Some rt \<Rightarrow> [])"

text \<open>
  The chaining operator. \<open>T\<close> is the template parameter deduced from the left
  operand: its object type with its qualifiers, for the overload taking \<^verbatim>\<open>T&\<close> (an
  lvalue operand) and for the one taking \<^verbatim>\<open>T&&\<close> (an rvalue operand) alike. Both
  overloads for \<^verbatim>\<open>let\<close> carry the same assertion, as do both for \<^verbatim>\<open>also\<close>; the
  overloads for \<^verbatim>\<open>run\<close> assert nothing. The diagnostics of the whole expression
  \<^verbatim>\<open>operand | wrapper(lambda)\<close> are those of the wrapper's construction followed by
  those of the operator. The header declares no \<^verbatim>\<open>operator|\<close> for \<^verbatim>\<open>with\<close>.
\<close>

definition bar_let_check :: "cpp_type \<Rightarrow> callable_type \<Rightarrow> diagnostic list" where
  "bar_let_check T L =
     (case LambdaReflection L of
        None \<Rightarrow> [DeductionFailure]
      | Some r \<Rightarrow>
          let_wrapper_check L @
          (if T = argument_type r then [] else [StaticAssert let_message]))"

definition bar_also_check :: "cpp_type \<Rightarrow> callable_type \<Rightarrow> diagnostic list" where
  "bar_also_check T L =
     (case LambdaReflection L of
        None \<Rightarrow> [DeductionFailure]
      | Some r \<Rightarrow>
          also_wrapper_check L @
          (if T = argument_type r then [] else [StaticAssert bar_also_message]))"

definition bar_run_check :: "cpp_type \<Rightarrow> callable_type \<Rightarrow> diagnostic list" where
  "bar_run_check T L = run_wrapper_check L"

definition bar_with_check :: "cpp_type \<Rightarrow> callable_type \<Rightarrow> diagnostic list" where
  "bar_with_check T L = with_wrapper_check L @ [NoMatchingOperator]"

section \<open>Run-time side: memory, callables and the combinators\<close>

text \<open>
  Objects live in a memory of cells; an address is the index of a cell, and a new
  object (a temporary) is put at the end, so its address is fresh. A reference is an
  address. Copying an object is reading the value of its cell.

  A callable's body is any function of the memory (and, for a one-parameter
  callable, of the address of the object its parameter is bound to). It returns how
  the call ended and the memory it left behind:
  \<^item> \<open>Returns r\<close>: it returned, with \<open>r\<close> nothing (\<^verbatim>\<open>void\<close>), a value, or a
    reference to an object;
  \<^item> \<open>Throws e\<close>: it threw the exception \<open>e\<close>;
  \<^item> \<open>Undefined\<close>: the C++ standard gives the execution no meaning (the model
    uses it where a dangling reference is read and where an expression with a
    \<^verbatim>\<open>void\<close> left operand is not a program at all).
  Objects captured by the callable (\<^verbatim>\<open>[self = &person]\<close>) are addresses fixed in
  the body. A callable whose parameter is declared by value copies the object on
  entry, by its own signature: its body reads the cell and never writes to it.
\<close>

type_synonym addr = nat

type_synonym 'v memory = "'v list"

datatype exn = Exn string

datatype 'v ret = RetVoid | RetValue 'v | RetRef addr

datatype 'r outcome = Returns 'r | Throws exn | Undefined

type_synonym 'v callable1 = "addr \<Rightarrow> 'v memory \<Rightarrow> 'v ret outcome \<times> 'v memory"

type_synonym 'v callable0 = "'v memory \<Rightarrow> 'v ret outcome \<times> 'v memory"

text \<open>
  The state threaded through the library's functions is the memory and a trace with
  one entry per invocation of a callable: \<open>Some a\<close> when it was called with a
  reference to the object at \<open>a\<close>, \<open>None\<close> when it was called with no argument.
  A callable's body cannot touch the trace; only the two call expressions below
  extend it.
\<close>

record 'v state =
  mem :: "'v memory"
  trace :: "addr option list"

definition call1 :: "'v callable1 \<Rightarrow> addr \<Rightarrow> 'v state \<Rightarrow> 'v ret outcome \<times> 'v state" where
  "call1 lambda a s =
     (case lambda a (mem s) of
        (r, m') \<Rightarrow> (r, \<lparr>mem = m', trace = trace s @ [Some a]\<rparr>))"

definition call0 :: "'v callable0 \<Rightarrow> 'v state \<Rightarrow> 'v ret outcome \<times> 'v state" where
  "call0 lambda s =
     (case lambda (mem s) of
        (r, m') \<Rightarrow> (r, \<lparr>mem = m', trace = trace s @ [None]\<rparr>))"

text \<open>
  What follows a call in a function body runs only when the call returned; an
  exception leaves the body at once, with the state as it is.
\<close>

fun and_then ::
  "'a outcome \<times> 's \<Rightarrow> ('a \<Rightarrow> 's \<Rightarrow> 'b outcome \<times> 's) \<Rightarrow> 'b outcome \<times> 's" where
  "and_then (Returns r, s) k = k r s"
| "and_then (Throws e, s) k = (Throws e, s)"
| "and_then (Undefined, s) k = (Undefined, s)"

text \<open>
  A function whose return type is \<^verbatim>\<open>LambdaReflection<L>::return_type\<close> returns by
  value: that type is never a reference. Returning what the callable returned
  copies the object when the callable returned a reference.
\<close>

fun return_by_value :: "'v ret \<Rightarrow> 'v state \<Rightarrow> 'v ret outcome \<times> 'v state" where
  "return_by_value RetVoid s = (Returns RetVoid, s)"
| "return_by_value (RetValue v) s = (Returns (RetValue v), s)"
| "return_by_value (RetRef b) s =
     (if b < length (mem s) then (Returns (RetValue (mem s ! b)), s) else (Undefined, s))"

subsection \<open>The mixin \<^verbatim>\<open>ScopeFunctions<Base>\<close>\<close>

text \<open>
  \<open>this\<close> is the address of the host object: \<^verbatim>\<open>*static_cast<Base *>(this)\<close> is the
  host itself. The bodies of the four members are
  \<^item> \<^verbatim>\<open>let\<close>: \<^verbatim>\<open>return lambda(*static_cast<Base *>(this));\<close>
  \<^item> \<^verbatim>\<open>run\<close>: \<^verbatim>\<open>return lambda();\<close>
  \<^item> \<^verbatim>\<open>apply\<close>: \<^verbatim>\<open>lambda(); return *static_cast<Base *>(this);\<close>
  \<^item> \<^verbatim>\<open>also\<close>: \<^verbatim>\<open>lambda(*static_cast<Base*>(this)); return *static_cast<Base*>(this);\<close>

  and \<^verbatim>\<open>let\<close> and \<^verbatim>\<open>run\<close> return by value, \<^verbatim>\<open>apply\<close> and \<^verbatim>\<open>also\<close> return
  \<^verbatim>\<open>Base&\<close>.
\<close>

definition ScopeFunctions_let ::
  "'v callable1 \<Rightarrow> addr \<Rightarrow> 'v state \<Rightarrow> 'v ret outcome \<times> 'v state" where
  "ScopeFunctions_let lambda this s = and_then (call1 lambda this s) return_by_value"

definition ScopeFunctions_run ::
  "'v callable0 \<Rightarrow> addr \<Rightarrow> 'v state \<Rightarrow> 'v ret outcome \<times> 'v state" where
  "ScopeFunctions_run lambda this s = and_then (call0 lambda s) return_by_value"

definition ScopeFunctions_apply ::
  "'v callable0 \<Rightarrow> addr \<Rightarrow> 'v state \<Rightarrow> 'v ret outcome \<times> 'v state" where
  "ScopeFunctions_apply lambda this s =
     and_then (call0 lambda s) (\<lambda>r s'. (Returns (RetRef this), s'))"

definition ScopeFunctions_also ::
  "'v callable1 \<Rightarrow> addr \<Rightarrow> 'v state \<Rightarrow> 'v ret outcome \<times> 'v state" where
  "ScopeFunctions_also lambda this s =
     and_then (call1 lambda this s) (\<lambda>r s'. (Returns (RetRef this), s'))"

subsection \<open>The freestanding wrappers\<close>

text \<open>
  Each wrapper holds its callable in the member \<open>fun\<close>. The constructors of
  \<^verbatim>\<open>let\<close>, \<^verbatim>\<open>run\<close> and \<^verbatim>\<open>also\<close> only store it (the datatype constructors
  below); the constructor of \<^verbatim>\<open>with\<close> stores it and then runs
  \<^verbatim>\<open>std::invoke(*this);\<close>, a call of its own \<^verbatim>\<open>operator()\<close> whose result is
  dropped. What a constructor yields is the wrapper object.

  \<open>let_call\<close>, \<open>run_call\<close>, \<open>with_call\<close> and \<open>also_call\<close> are the four
  \<^verbatim>\<open>operator()\<close>:
  \<^item> \<^verbatim>\<open>RT operator()(ARG& contextObject) { return fun(contextObject); }\<close> of \<^verbatim>\<open>let\<close>,
  \<^item> \<^verbatim>\<open>RT operator()() { return fun(); }\<close> of \<^verbatim>\<open>run\<close> and of \<^verbatim>\<open>with\<close>,
  \<^item> \<^verbatim>\<open>ARG& operator()(ARG& contextObject) { fun(contextObject); return contextObject; }\<close>
    of \<^verbatim>\<open>also\<close>;

  \<open>with_ctor\<close> is the constructor
  \<^verbatim>\<open>with(L lambda) : fun(lambda) {std::invoke(*this);}\<close>.
\<close>

datatype 'v let_wrapper = LetWrapper (let_fun: "'v callable1")

datatype 'v run_wrapper = RunWrapper (run_fun: "'v callable0")

datatype 'v with_wrapper = WithWrapper (with_fun: "'v callable0")

datatype 'v also_wrapper = AlsoWrapper (also_fun: "'v callable1")

definition let_call ::
  "'v let_wrapper \<Rightarrow> addr \<Rightarrow> 'v state \<Rightarrow> 'v ret outcome \<times> 'v state" where
  "let_call w contextObject s = and_then (call1 (let_fun w) contextObject s) return_by_value"

definition run_call :: "'v run_wrapper \<Rightarrow> 'v state \<Rightarrow> 'v ret outcome \<times> 'v state" where
  "run_call w s = and_then (call0 (run_fun w) s) return_by_value"

definition with_call :: "'v with_wrapper \<Rightarrow> 'v state \<Rightarrow> 'v ret outcome \<times> 'v state" where
  "with_call w s = and_then (call0 (with_fun w) s) return_by_value"

definition with_ctor ::
  "'v callable0 \<Rightarrow> 'v state \<Rightarrow> 'v with_wrapper outcome \<times> 'v state" where
  "with_ctor lambda s =
     and_then (with_call (WithWrapper lambda) s) (\<lambda>r s'. (Returns (WithWrapper lambda), s'))"

definition also_call ::
  "'v also_wrapper \<Rightarrow> addr \<Rightarrow> 'v state \<Rightarrow> 'v ret outcome \<times> 'v state" where
  "also_call w contextObject s =
     and_then (call1 (also_fun w) contextObject s) (\<lambda>r s'. (Returns (RetRef contextObject), s'))"

subsection \<open>The chaining operator\<close>

text \<open>
  Six overloads of \<^verbatim>\<open>operator|\<close>: for each of \<^verbatim>\<open>let\<close>, \<^verbatim>\<open>run\<close> and \<^verbatim>\<open>also\<close> one
  taking the left operand as \<^verbatim>\<open>T&\<close> (\<open>bar_let_lref\<close>, \<open>bar_run_lref\<close>,
  \<open>bar_also_lref\<close>) and one taking it as \<^verbatim>\<open>T&&\<close> (\<open>bar_let_rref\<close>,
  \<open>bar_run_rref\<close>, \<open>bar_also_rref\<close>). Inside either, \<open>contextObject\<close> is a
  reference to the operand. The bodies are \<^verbatim>\<open>return lambda(contextObject);\<close> for
  \<^verbatim>\<open>let\<close> and \<^verbatim>\<open>also\<close> and \<^verbatim>\<open>return lambda();\<close> for \<^verbatim>\<open>run\<close>, where \<open>lambda\<close>
  names the wrapper.
\<close>

definition bar_let_lref ::
  "addr \<Rightarrow> 'v let_wrapper \<Rightarrow> 'v state \<Rightarrow> 'v ret outcome \<times> 'v state" where
  "bar_let_lref contextObject lambda s = let_call lambda contextObject s"

definition bar_let_rref ::
  "addr \<Rightarrow> 'v let_wrapper \<Rightarrow> 'v state \<Rightarrow> 'v ret outcome \<times> 'v state" where
  "bar_let_rref contextObject lambda s = let_call lambda contextObject s"

definition bar_run_lref ::
  "addr \<Rightarrow> 'v run_wrapper \<Rightarrow> 'v state \<Rightarrow> 'v ret outcome \<times> 'v state" where
  "bar_run_lref contextObject lambda s = run_call lambda s"

definition bar_run_rref ::
  "addr \<Rightarrow> 'v run_wrapper \<Rightarrow> 'v state \<Rightarrow> 'v ret outcome \<times> 'v state" where
  "bar_run_rref contextObject lambda s = run_call lambda s"

definition bar_also_lref ::
  "addr \<Rightarrow> 'v also_wrapper \<Rightarrow> 'v state \<Rightarrow> 'v ret outcome \<times> 'v state" where
  "bar_also_lref contextObject lambda s = also_call lambda contextObject s"

definition bar_also_rref ::
  "addr \<Rightarrow> 'v also_wrapper \<Rightarrow> 'v state \<Rightarrow> 'v ret outcome \<times> 'v state" where
  "bar_also_rref contextObject lambda s = also_call lambda contextObject s"

subsection \<open>Chains\<close>

text \<open>
  A chain is an expression \<^verbatim>\<open>x | let(f) | also(g) ...\<close> or \<^verbatim>\<open>x.apply(f).also(g) ...\<close>
  or a mix of both: a start and a list of links, applied from the left. The value
  of the expression so far is the left operand (or, for a member call, the object)
  of the next link. An lvalue operand is used where it is and selects the \<^verbatim>\<open>T&\<close>
  overload; a prvalue operand is first materialised as a temporary object at a fresh
  address and selects the \<^verbatim>\<open>T&&\<close> overload; a \<^verbatim>\<open>void\<close> operand fits no overload.
  Temporaries live until the whole expression has been evaluated.
\<close>

datatype 'v link =
  BarLet "'v callable1"
| BarRun "'v callable0"
| BarAlso "'v callable1"
| DotLet "'v callable1"
| DotRun "'v callable0"
| DotApply "'v callable0"
| DotAlso "'v callable1"

fun bind_operand :: "'v ret \<Rightarrow> 'v state \<Rightarrow> (bool \<times> addr \<times> 'v state) option" where
  "bind_operand (RetRef a) s = Some (True, a, s)"
| "bind_operand (RetValue v) s = Some (False, length (mem s), s\<lparr>mem := mem s @ [v]\<rparr>)"
| "bind_operand RetVoid s = None"

fun apply_link ::
  "bool \<Rightarrow> addr \<Rightarrow> 'v link \<Rightarrow> 'v state \<Rightarrow> 'v ret outcome \<times> 'v state" where
  "apply_link lvalue a (BarLet f) s =
     (if lvalue then bar_let_lref a (LetWrapper f) s else bar_let_rref a (LetWrapper f) s)"
| "apply_link lvalue a (BarRun g) s =
     (if lvalue then bar_run_lref a (RunWrapper g) s else bar_run_rref a (RunWrapper g) s)"
| "apply_link lvalue a (BarAlso f) s =
     (if lvalue then bar_also_lref a (AlsoWrapper f) s else bar_also_rref a (AlsoWrapper f) s)"
| "apply_link lvalue a (DotLet f) s = ScopeFunctions_let f a s"
| "apply_link lvalue a (DotRun g) s = ScopeFunctions_run g a s"
| "apply_link lvalue a (DotApply g) s = ScopeFunctions_apply g a s"
| "apply_link lvalue a (DotAlso f) s = ScopeFunctions_also f a s"

fun chain :: "'v ret \<Rightarrow> 'v link list \<Rightarrow> 'v state \<Rightarrow> 'v ret outcome \<times> 'v state" where
  "chain x [] s = (Returns x, s)"
| "chain x (k # ks) s =
     (case bind_operand x s of
        None \<Rightarrow> (Undefined, s)
      | Some (lvalue, a, s1) \<Rightarrow>
          (case apply_link lvalue a k s1 of
             (Returns r, s2) \<Rightarrow> chain r ks s2
           | (Throws e, s2) \<Rightarrow> (Throws e, s2)
           | (Undefined, s2) \<Rightarrow> (Undefined, s2)))"

text \<open>
  The invocations a piece of evaluation added to the trace, and the property that
  every one of them was handed the object at one given address.
\<close>

definition new_events :: "'v state \<Rightarrow> 'v state \<Rightarrow> addr option list" where
  "new_events s s' = drop (length (trace s)) (trace s')"

definition observes_only :: "addr \<Rightarrow> 'v state \<Rightarrow> 'v state \<Rightarrow> bool" where
  "observes_only a s s' = list_all (\<lambda>e. e = Some a) (new_events s s')"

fun receives_argument :: "'v link \<Rightarrow> bool" where
  "receives_argument (BarLet f) = True"
| "receives_argument (BarAlso f) = True"
| "receives_argument (DotLet f) = True"
| "receives_argument (DotAlso f) = True"
| "receives_argument k = False"

fun is_also :: "'v link \<Rightarrow> bool" where
  "is_also (BarAlso f) = True"
| "is_also (DotAlso f) = True"
| "is_also k = False"

fun is_let :: "'v link \<Rightarrow> bool" where
  "is_let (BarLet f) = True"
| "is_let (DotLet f) = True"
| "is_let k = False"

text \<open>
  The callable a link owns, as a function of the address of the link's operand (a
  \<^verbatim>\<open>run\<close> or \<^verbatim>\<open>apply\<close> callable ignores it), and whether the link's combinator
  returns a reference to its operand (\<^verbatim>\<open>apply\<close>, \<^verbatim>\<open>also\<close>) or the callable's
  result (\<^verbatim>\<open>let\<close>, \<^verbatim>\<open>run\<close>).
\<close>

fun callable_of :: "'v link \<Rightarrow> 'v callable1" where
  "callable_of (BarLet f) = f"
| "callable_of (BarRun g) = (\<lambda>a. g)"
| "callable_of (BarAlso f) = f"
| "callable_of (DotLet f) = f"
| "callable_of (DotRun g) = (\<lambda>a. g)"
| "callable_of (DotApply g) = (\<lambda>a. g)"
| "callable_of (DotAlso f) = f"

fun returns_self :: "'v link \<Rightarrow> bool" where
  "returns_self (BarAlso f) = True"
| "returns_self (DotApply g) = True"
| "returns_self (DotAlso f) = True"
| "returns_self k = False"

subsection \<open>The reference: the same callables applied by hand\<close>

text \<open>
  The specification compares a chain with the same operations applied manually, in
  left-to-right order, each step's output becoming the next step's input. This
  reference uses no wrapper, no operator and no member of the mixin. For each link
  it takes the current value as the step's input (a value that is not yet an object
  is held in an object of its own; nothing can be made of \<^verbatim>\<open>void\<close>), calls the
  link's callable directly, and takes as the step's output what the specification's
  table gives for that combinator: the callable's result, as the callable returned
  it, for \<^verbatim>\<open>let\<close> and \<^verbatim>\<open>run\<close>, the current object itself for \<^verbatim>\<open>apply\<close> and
  \<^verbatim>\<open>also\<close>.
\<close>

fun hold :: "'v ret \<Rightarrow> 'v memory \<Rightarrow> (addr \<times> 'v memory) option" where
  "hold (RetRef a) m = Some (a, m)"
| "hold (RetValue v) m = Some (length m, m @ [v])"
| "hold RetVoid m = None"

definition step_output :: "'v link \<Rightarrow> addr \<Rightarrow> 'v ret \<Rightarrow> 'v ret" where
  "step_output k a r = (if returns_self k then RetRef a else r)"

fun manual :: "'v ret \<Rightarrow> 'v link list \<Rightarrow> 'v memory \<Rightarrow> 'v ret outcome \<times> 'v memory" where
  "manual x [] m = (Returns x, m)"
| "manual x (k # ks) m =
     (case hold x m of
        None \<Rightarrow> (Undefined, m)
      | Some (a, m1) \<Rightarrow>
          (case callable_of k a m1 of
             (Returns r, m2) \<Rightarrow> manual (step_output k a r) ks m2
           | (Throws e, m2) \<Rightarrow> (Throws e, m2)
           | (Undefined, m2) \<Rightarrow> (Undefined, m2)))"

text \<open>
  Whether, along the by-hand application, every result a \<^verbatim>\<open>let\<close> or \<^verbatim>\<open>run\<close> step
  hands on is a value or nothing, and never a reference.
\<close>

fun hands_on_values :: "'v ret \<Rightarrow> 'v link list \<Rightarrow> 'v memory \<Rightarrow> bool" where
  "hands_on_values x [] m = True"
| "hands_on_values x (k # ks) m =
     (case hold x m of
        None \<Rightarrow> True
      | Some (a, m1) \<Rightarrow>
          (case callable_of k a m1 of
             (Returns r, m2) \<Rightarrow>
               (case r of RetRef b \<Rightarrow> returns_self k | RetValue v \<Rightarrow> True | RetVoid \<Rightarrow> True)
               \<and> hands_on_values (step_output k a r) ks m2
           | (Throws e, m2) \<Rightarrow> True
           | (Undefined, m2) \<Rightarrow> True))"

subsection \<open>The objects and callables of the repository's tests\<close>

text \<open>
  \<^verbatim>\<open>tests/testentities.hpp\<close> and \<^verbatim>\<open>tests/scopefunctiontests.cpp\<close>: a \<^verbatim>\<open>Person\<close> with
  \<open>name\<close>, \<open>location\<close> and \<open>age\<close>, vectors of \<^verbatim>\<open>int\<close>, numbers and strings, and
  the lambdas the tests pass to the combinators. An \<^verbatim>\<open>unsigned\<close> is 32 bits wide.
  A lambda that reads an object which is not there, or not of the type it was written
  for, has no defined behaviour.
\<close>

datatype val =
  Num int
| Text string
| Vec "int list"
| Person string string int

text \<open>\<^verbatim>\<open>[](std::vector<int>& it) { it.push_back(4); return it; }\<close>\<close>

definition push_back_4 :: "val callable1" where
  "push_back_4 it m =
     (if it < length m then
        (case m ! it of
           Vec xs \<Rightarrow> (Returns (RetValue (Vec (xs @ [4]))), m[it := Vec (xs @ [4])])
         | _ \<Rightarrow> (Undefined, m))
      else (Undefined, m))"

text \<open>
  \<^verbatim>\<open>[](std::vector<int>& it) -> unsigned
    { return *std::max_element(it.begin(), it.end()).base(); }\<close>
\<close>

definition max_element :: "val callable1" where
  "max_element it m =
     (if it < length m then
        (case m ! it of
           Vec [] \<Rightarrow> (Undefined, m)
         | Vec (x # xs) \<Rightarrow> (Returns (RetValue (Num (fold max xs x mod 2 ^ 32))), m)
         | _ \<Rightarrow> (Undefined, m))
      else (Undefined, m))"

text \<open>\<^verbatim>\<open>[](unsigned& it) { it = it * 2; }\<close>\<close>

definition double_it :: "val callable1" where
  "double_it it m =
     (if it < length m then
        (case m ! it of
           Num n \<Rightarrow> (Returns RetVoid, m[it := Num (n * 2 mod 2 ^ 32)])
         | _ \<Rightarrow> (Undefined, m))
      else (Undefined, m))"

text \<open>
  \<^verbatim>\<open>[self = &person, num] { self->age = num; }\<close>,
  \<^verbatim>\<open>[self = &person] { self->name.clear(); }\<close> and
  \<^verbatim>\<open>[](Person& it) { it.location.clear(); }\<close>
\<close>

definition set_age :: "addr \<Rightarrow> int \<Rightarrow> val callable0" where
  "set_age self num m =
     (if self < length m then
        (case m ! self of
           Person name location age \<Rightarrow> (Returns RetVoid, m[self := Person name location num])
         | _ \<Rightarrow> (Undefined, m))
      else (Undefined, m))"

definition clear_name :: "addr \<Rightarrow> val callable0" where
  "clear_name self m =
     (if self < length m then
        (case m ! self of
           Person name location age \<Rightarrow> (Returns RetVoid, m[self := Person [] location age])
         | _ \<Rightarrow> (Undefined, m))
      else (Undefined, m))"

definition clear_location :: "val callable1" where
  "clear_location it m =
     (if it < length m then
        (case m ! it of
           Person name location age \<Rightarrow> (Returns RetVoid, m[it := Person name [] age])
         | _ \<Rightarrow> (Undefined, m))
      else (Undefined, m))"

text \<open>
  Five callables that are not in the tests: one that returns a reference to the
  object it was given (\<^verbatim>\<open>[](T& it) -> T& { return it; }\<close>), one that throws, one
  that clears the name of the person it was given and then throws
  (\<^verbatim>\<open>[](Person& it) { it.name.clear(); throw std::runtime_error(what); }\<close>), one
  that counts its own executions in the cell it captured and returns the count
  (\<^verbatim>\<open>[n = &counter] { return ++*n; }\<close>), and one that makes the person it was
  given a year older and returns the new age
  (\<^verbatim>\<open>[](Person& it) { return ++it.age; }\<close>).
\<close>

definition return_it :: "'v callable1" where
  "return_it it m = (Returns (RetRef it), m)"

definition throwing :: "string \<Rightarrow> 'v callable0" where
  "throwing what m = (Throws (Exn what), m)"

definition clear_then_throw :: "string \<Rightarrow> val callable1" where
  "clear_then_throw what it m =
     (if it < length m then
        (case m ! it of
           Person name location age \<Rightarrow> (Throws (Exn what), m[it := Person [] location age])
         | _ \<Rightarrow> (Undefined, m))
      else (Undefined, m))"


definition count_up :: "addr \<Rightarrow> val callable0" where
  "count_up n m =
     (if n < length m then
        (case m ! n of
           Num c \<Rightarrow> (Returns (RetValue (Num (c + 1))), m[n := Num (c + 1)])
         | _ \<Rightarrow> (Undefined, m))
      else (Undefined, m))"

text \<open>
  The types the tests use, and the types of their lambdas: \<open>lambda_type P R\<close> is
  the type of \<^verbatim>\<open>[](P it) -> R { ... }\<close>, \<open>lambda_type_no_params R\<close> that of
  \<^verbatim>\<open>[...] () -> R { ... }\<close>, and \<open>lambda_type_defaulted P R\<close> that of a lambda
  whose one parameter has a default argument, \<^verbatim>\<open>[](P it = ...) -> R { ... }\<close>.
\<close>

definition object_type :: "string \<Rightarrow> cpp_type" where
  "object_type n = \<lparr>is_const = False, is_volatile = False, refkind = NoRef, core = Object n\<rparr>"

definition void_type :: cpp_type where
  "void_type = \<lparr>is_const = False, is_volatile = False, refkind = NoRef, core = Void\<rparr>"

definition lvalue_ref :: "cpp_type \<Rightarrow> cpp_type" where
  "lvalue_ref t = t\<lparr>refkind := LvalueRef\<rparr>"

definition const_of :: "cpp_type \<Rightarrow> cpp_type" where
  "const_of t = t\<lparr>is_const := True\<rparr>"

definition lambda_type :: "cpp_type \<Rightarrow> cpp_type \<Rightarrow> callable_type" where
  "lambda_type P R = \<lparr>params = [\<lparr>ptype = P, has_default = False\<rparr>], ret = R\<rparr>"

definition lambda_type_no_params :: "cpp_type \<Rightarrow> callable_type" where
  "lambda_type_no_params R = \<lparr>params = [], ret = R\<rparr>"

definition lambda_type_defaulted :: "cpp_type \<Rightarrow> cpp_type \<Rightarrow> callable_type" where
  "lambda_type_defaulted P R = \<lparr>params = [\<lparr>ptype = P, has_default = True\<rparr>], ret = R\<rparr>"

section \<open>Facts about the introspector\<close>

lemma base_type_idem: "base_type (base_type t) = base_type t"
  by (simp add: base_type_def remove_cv_def remove_reference_def)

lemma base_type_plain:
  "refkind (base_type t) = NoRef \<and> \<not> is_const (base_type t) \<and> \<not> is_volatile (base_type t)"
  by (simp add: base_type_def remove_cv_def remove_reference_def)


lemma LambdaReflection_Some:
  "LambdaReflection L = Some r \<longleftrightarrow>
     (\<exists>p. params L = [p] \<and>
          r = \<lparr>return_type = base_type (ret L), argument_type = base_type (ptype p)\<rparr>)"
proof (cases "params L")
  case Nil
  then show ?thesis by (simp add: LambdaReflection_def std_function_def)
next
  case (Cons p ps)
  then show ?thesis
    by (cases ps) (auto simp: LambdaReflection_def std_function_def)
qed

lemma LambdaReflectionNoArg_Some:
  "LambdaReflectionNoArg L = Some rt \<longleftrightarrow> params L = [] \<and> rt = base_type (ret L)"
  by (cases "params L") (auto simp: LambdaReflectionNoArg_def std_function_def)

lemma base_type_eq_self: "base_type t = T \<Longrightarrow> base_type T = base_type t"
  using base_type_idem [of t] by simp

text \<open>
  The uses the tests make of the combinators are accepted: \<^verbatim>\<open>person.also\<close> and
  \<^verbatim>\<open>person.let\<close> with a lambda taking \<^verbatim>\<open>Person&\<close>, \<^verbatim>\<open>person.apply\<close> and
  \<^verbatim>\<open>person.run\<close> with a capturing lambda without parameters, and a vector piped
  into \<^verbatim>\<open>let\<close> and \<^verbatim>\<open>also\<close> with a lambda taking \<^verbatim>\<open>std::vector<int>&\<close>.
\<close>

lemma tests_accepted:
  "ScopeFunctions_let_check (object_type ''Person'')
     (lambda_type (lvalue_ref (object_type ''Person'')) void_type) = []"
  "ScopeFunctions_also_check (object_type ''Person'')
     (lambda_type (lvalue_ref (object_type ''Person'')) void_type) = []"
  "ScopeFunctions_apply_check (object_type ''Person'') (lambda_type_no_params void_type) = []"
  "ScopeFunctions_run_check (object_type ''Person'')
     (lambda_type_no_params (object_type ''bool'')) = []"
  "bar_let_check (object_type ''std::vector<int>'')
     (lambda_type (lvalue_ref (object_type ''std::vector<int>'')) (object_type ''unsigned'')) = []"
  "bar_also_check (object_type ''unsigned'')
     (lambda_type (lvalue_ref (object_type ''unsigned'')) void_type) = []"
  "bar_run_check (object_type ''std::string'') (lambda_type_no_params void_type) = []"
  by (simp_all add: ScopeFunctions_let_check_def ScopeFunctions_also_check_def
      ScopeFunctions_apply_check_def ScopeFunctions_run_check_def bar_let_check_def
      bar_also_check_def bar_run_check_def let_wrapper_check_def also_wrapper_check_def
      run_wrapper_check_def LambdaReflection_def LambdaReflectionNoArg_def std_function_def
      invocable_no_args_def invocable_with_lvalue_def base_type_def remove_cv_def
      remove_reference_def object_type_def void_type_def lvalue_ref_def lambda_type_def
      lambda_type_no_params_def)

section \<open>Facts about calls and the state they leave\<close>

text \<open>
  Whatever a callable does, each combinator leaves the memory exactly as its callable
  left it and adds exactly one entry to the trace.
\<close>

lemma snd_call1:
  "snd (call1 lambda a s) = \<lparr>mem = snd (lambda a (mem s)), trace = trace s @ [Some a]\<rparr>"
  by (simp add: call1_def split: prod.split)

lemma snd_call0:
  "snd (call0 lambda s) = \<lparr>mem = snd (lambda (mem s)), trace = trace s @ [None]\<rparr>"
  by (simp add: call0_def split: prod.split)

lemma snd_return_by_value: "snd (return_by_value r s) = s"
  by (cases r) simp_all

lemma snd_and_then:
  assumes "\<And>r s. snd (k r s) = s"
  shows "snd (and_then p k) = snd p"
proof (cases p)
  case (Pair out s)
  then show ?thesis using assms by (cases out) simp_all
qed

lemma state_after_let:
  "snd (ScopeFunctions_let f a s) = \<lparr>mem = snd (f a (mem s)), trace = trace s @ [Some a]\<rparr>"
  by (simp add: ScopeFunctions_let_def snd_and_then snd_return_by_value snd_call1)

lemma state_after_run:
  "snd (ScopeFunctions_run g a s) = \<lparr>mem = snd (g (mem s)), trace = trace s @ [None]\<rparr>"
  by (simp add: ScopeFunctions_run_def snd_and_then snd_return_by_value snd_call0)

lemma state_after_apply:
  "snd (ScopeFunctions_apply g a s) = \<lparr>mem = snd (g (mem s)), trace = trace s @ [None]\<rparr>"
  by (simp add: ScopeFunctions_apply_def snd_and_then snd_call0)

lemma state_after_also:
  "snd (ScopeFunctions_also f a s) = \<lparr>mem = snd (f a (mem s)), trace = trace s @ [Some a]\<rparr>"
  by (simp add: ScopeFunctions_also_def snd_and_then snd_call1)

lemma state_after_let_call:
  "snd (let_call w a s) = \<lparr>mem = snd (let_fun w a (mem s)), trace = trace s @ [Some a]\<rparr>"
  by (simp add: let_call_def snd_and_then snd_return_by_value snd_call1)

lemma state_after_run_call:
  "snd (run_call w s) = \<lparr>mem = snd (run_fun w (mem s)), trace = trace s @ [None]\<rparr>"
  by (simp add: run_call_def snd_and_then snd_return_by_value snd_call0)

lemma state_after_with_call:
  "snd (with_call w s) = \<lparr>mem = snd (with_fun w (mem s)), trace = trace s @ [None]\<rparr>"
  by (simp add: with_call_def snd_and_then snd_return_by_value snd_call0)

lemma state_after_with_ctor:
  "snd (with_ctor g s) = \<lparr>mem = snd (g (mem s)), trace = trace s @ [None]\<rparr>"
  by (simp add: with_ctor_def snd_and_then state_after_with_call)

lemma state_after_also_call:
  "snd (also_call w a s) = \<lparr>mem = snd (also_fun w a (mem s)), trace = trace s @ [Some a]\<rparr>"
  by (simp add: also_call_def snd_and_then snd_call1)

lemma state_after_link:
  "snd (apply_link lv a k s) =
     \<lparr>mem = snd (callable_of k a (mem s)),
      trace = trace s @ [if receives_argument k then Some a else None]\<rparr>"
  by (cases k)
     (simp_all add: bar_let_lref_def bar_let_rref_def bar_run_lref_def bar_run_rref_def
        bar_also_lref_def bar_also_rref_def state_after_let state_after_run state_after_apply
        state_after_also state_after_let_call state_after_run_call state_after_also_call)


section \<open>Facts about links and chains\<close>

text \<open>
  A link's outcome, read off the outcome of its callable; an operand held by the
  reference and bound by the chain is the same object in the same memory.
\<close>

lemma hold_bind_operand:
  "hold x (mem s) = map_option (\<lambda>(lv, a, s1). (a, mem s1)) (bind_operand x s)"
  by (cases x) simp_all

lemma trace_bind_operand: "bind_operand x s = Some (lv, a, s1) \<Longrightarrow> trace s1 = trace s"
  by (cases x) auto

lemma apply_link_outcome:
  "fst (apply_link lv a k s) =
     (case fst (callable_of k a (mem s)) of
        Returns r \<Rightarrow>
          (if returns_self k then Returns (RetRef a)
           else case r of
                  RetRef b \<Rightarrow>
                    if b < length (snd (callable_of k a (mem s)))
                    then Returns (RetValue (snd (callable_of k a (mem s)) ! b))
                    else Undefined
                | RetValue v \<Rightarrow> Returns (RetValue v)
                | RetVoid \<Rightarrow> Returns RetVoid)
      | Throws e \<Rightarrow> Throws e
      | Undefined \<Rightarrow> Undefined)"
proof -
  obtain out m' where c: "callable_of k a (mem s) = (out, m')"
    by (cases "callable_of k a (mem s)")
  show ?thesis
  proof (cases out)
    case (Returns r)
    with c show ?thesis
      by (cases k; cases lv; cases r)
         (simp_all add: bar_let_lref_def bar_let_rref_def bar_run_lref_def bar_run_rref_def
            bar_also_lref_def bar_also_rref_def let_call_def run_call_def also_call_def
            ScopeFunctions_let_def ScopeFunctions_run_def ScopeFunctions_apply_def
            ScopeFunctions_also_def call1_def call0_def)
  next
    case (Throws e)
    with c show ?thesis
      by (cases k; cases lv)
         (simp_all add: bar_let_lref_def bar_let_rref_def bar_run_lref_def bar_run_rref_def
            bar_also_lref_def bar_also_rref_def let_call_def run_call_def also_call_def
            ScopeFunctions_let_def ScopeFunctions_run_def ScopeFunctions_apply_def
            ScopeFunctions_also_def call1_def call0_def)
  next
    case Undefined
    with c show ?thesis
      by (cases k; cases lv)
         (simp_all add: bar_let_lref_def bar_let_rref_def bar_run_lref_def bar_run_rref_def
            bar_also_lref_def bar_also_rref_def let_call_def run_call_def also_call_def
            ScopeFunctions_let_def ScopeFunctions_run_def ScopeFunctions_apply_def
            ScopeFunctions_also_def call1_def call0_def)
  qed
qed

text \<open>
  An \<^verbatim>\<open>also\<close> link hands on the reference it was given, so a run of them keeps
  calling on the same address; the two overloads of each operator have one body.
\<close>

lemma apply_link_also:
  assumes "is_also k"
  shows "apply_link lv a k s =
           (case callable_of k a (mem s) of
              (Returns r, m') \<Rightarrow> (Returns (RetRef a), \<lparr>mem = m', trace = trace s @ [Some a]\<rparr>)
            | (Throws e, m') \<Rightarrow> (Throws e, \<lparr>mem = m', trace = trace s @ [Some a]\<rparr>)
            | (Undefined, m') \<Rightarrow> (Undefined, \<lparr>mem = m', trace = trace s @ [Some a]\<rparr>))"
proof -
  obtain out m' where c: "callable_of k a (mem s) = (out, m')"
    by (cases "callable_of k a (mem s)")
  from assms c show ?thesis
    by (cases k; cases out)
       (simp_all add: bar_also_lref_def bar_also_rref_def also_call_def
          ScopeFunctions_also_def call1_def)
qed

lemma trace_after_chain_let_end:
  assumes "list_all is_let fin" and "length fin \<le> 1"
  shows "\<exists>es. trace (snd (chain (RetRef a) fin s)) = trace s @ es \<and> list_all (\<lambda>e. e = Some a) es"
proof (cases fin)
  case Nil
  then show ?thesis by simp
next
  case (Cons k ks)
  with assms have ks: "ks = []" and k: "is_let k" by simp_all
  obtain out s2 where l: "apply_link True a k s = (out, s2)"
    by (cases "apply_link True a k s")
  from k have "receives_argument k" by (cases k) simp_all
  with state_after_link [of True a k s] l
  have "trace s2 = trace s @ [Some a]" by simp
  with l Cons ks show ?thesis by (cases out) simp_all
qed

lemma trace_after_also_chain:
  assumes "list_all is_also ks" and "list_all is_let fin" and "length fin \<le> 1"
  shows "\<exists>es. trace (snd (chain (RetRef a) (ks @ fin) s)) = trace s @ es
              \<and> list_all (\<lambda>e. e = Some a) es"
  using assms(1)
proof (induction ks arbitrary: s)
  case Nil
  show ?case using trace_after_chain_let_end [OF assms(2,3)] by simp
next
  case (Cons k ks)
  then have k: "is_also k" and ks: "list_all is_also ks" by simp_all
  obtain out m' where c: "callable_of k a (mem s) = (out, m')"
    by (cases "callable_of k a (mem s)")
  let ?s2 = "\<lparr>mem = m', trace = trace s @ [Some a]\<rparr>"
  show ?case
  proof (cases out)
    case (Returns r)
    from Cons.IH [OF ks, of ?s2] obtain es where
      es: "trace (snd (chain (RetRef a) (ks @ fin) ?s2)) = trace ?s2 @ es"
          "list_all (\<lambda>e. e = Some a) es"
      by blast
    have "chain (RetRef a) ((k # ks) @ fin) s = chain (RetRef a) (ks @ fin) ?s2"
      using c Returns by (simp add: apply_link_also [OF k])
    with es have "trace (snd (chain (RetRef a) ((k # ks) @ fin) s)) = trace s @ (Some a # es)
                  \<and> list_all (\<lambda>e. e = Some a) (Some a # es)"
      by simp
    then show ?thesis by blast
  next
    case (Throws e)
    with c have "trace (snd (chain (RetRef a) ((k # ks) @ fin) s)) = trace s @ [Some a]"
      by (simp add: apply_link_also [OF k])
    then show ?thesis by simp
  next
    case Undefined
    with c have "trace (snd (chain (RetRef a) ((k # ks) @ fin) s)) = trace s @ [Some a]"
      by (simp add: apply_link_also [OF k])
    then show ?thesis by simp
  qed
qed

lemma apply_link_value_category: "apply_link False a k s = apply_link True a k s"
  by (cases k)
     (simp_all add: bar_let_lref_def bar_let_rref_def bar_run_lref_def bar_run_rref_def
        bar_also_lref_def bar_also_rref_def)

lemma chain_from_bound_operand:
  assumes "bind_operand x s = Some (lv, a, s1)" and "ks \<noteq> []"
  shows "chain x ks s = chain (RetRef a) ks s1"
proof -
  from assms(2) obtain k ks' where ks: "ks = k # ks'" by (cases ks) auto
  from assms(1) have "apply_link lv a k s1 = apply_link True a k s1"
    by (cases lv) (simp_all add: apply_link_value_category)
  with assms(1) ks show ?thesis by simp
qed

section \<open>The claims\<close>



text \<open>
  C2. When the callable returns, whatever it returns (\<open>r\<close> and \<open>r0\<close> are
  arbitrary), the mixin's \<^verbatim>\<open>apply\<close> and \<^verbatim>\<open>also\<close>, the call operator of the
  freestanding \<^verbatim>\<open>also\<close> and both overloads of its chaining operator return a
  reference to the very object they were applied to: the address \<open>a\<close> they were
  given. A reference is an address, so the returned reference and the original
  handle name one cell; accordingly the rest of a chain goes on with the object at
  \<open>a\<close>, in the memory the callable left.
\<close>

theorem self_returning_alias:
  assumes "f a (mem s) = (Returns r, m')" and "g (mem s) = (Returns r0, m0)"
  shows "ScopeFunctions_apply g a s =
           (Returns (RetRef a), \<lparr>mem = m0, trace = trace s @ [None]\<rparr>)
       \<and> ScopeFunctions_also f a s =
           (Returns (RetRef a), \<lparr>mem = m', trace = trace s @ [Some a]\<rparr>)
       \<and> also_call (AlsoWrapper f) a s =
           (Returns (RetRef a), \<lparr>mem = m', trace = trace s @ [Some a]\<rparr>)
       \<and> bar_also_lref a (AlsoWrapper f) s =
           (Returns (RetRef a), \<lparr>mem = m', trace = trace s @ [Some a]\<rparr>)
       \<and> bar_also_rref a (AlsoWrapper f) s =
           (Returns (RetRef a), \<lparr>mem = m', trace = trace s @ [Some a]\<rparr>)
       \<and> chain (RetRef a) (DotApply g # ks) s =
           chain (RetRef a) ks \<lparr>mem = m0, trace = trace s @ [None]\<rparr>
       \<and> chain (RetRef a) (DotAlso f # ks) s =
           chain (RetRef a) ks \<lparr>mem = m', trace = trace s @ [Some a]\<rparr>
       \<and> chain (RetRef a) (BarAlso f # ks) s =
           chain (RetRef a) ks \<lparr>mem = m', trace = trace s @ [Some a]\<rparr>"
  using assms
  by (simp add: ScopeFunctions_apply_def ScopeFunctions_also_def also_call_def
      bar_also_lref_def bar_also_rref_def call1_def call0_def)

theorem self_returning_alias_witness:
  "ScopeFunctions_apply (count_up 0) 0 \<lparr>mem = [Num 7], trace = []\<rparr> =
     (Returns (RetRef 0), \<lparr>mem = [Num 8], trace = [None]\<rparr>)
   \<and> ScopeFunctions_also return_it 0 \<lparr>mem = [Num 7], trace = []\<rparr> =
     (Returns (RetRef 0), \<lparr>mem = [Num 7], trace = [Some 0]\<rparr>)
   \<and> bar_also_lref 0 (AlsoWrapper return_it) \<lparr>mem = [Num 7], trace = []\<rparr> =
     (Returns (RetRef 0), \<lparr>mem = [Num 7], trace = [Some 0]\<rparr>)"
  using self_returning_alias
    [of return_it 0 "\<lparr>mem = [Num 7], trace = []\<rparr>" "RetRef 0" "[Num 7]"
        "count_up 0" "RetValue (Num 8)" "[Num 8]"]
  by (simp add: return_it_def count_up_def)

text \<open>
  C3 (as amended). In a chain of \<^verbatim>\<open>also\<close> links, with at most one \<^verbatim>\<open>let\<close> link
  closing it, every callable is handed the starting object itself: every entry the
  chain adds to the trace is the address \<open>a\<close> of the object the chain started on
  (for a prvalue start, of the temporary it was materialised in). This holds however
  the callables end, including when one throws and cuts the chain short.
\<close>

theorem also_chain_keeps_instance:
  assumes "list_all is_also ks" and "list_all is_let fin" and "length fin \<le> 1"
      and "bind_operand x s = Some (lv, a, s1)"
  shows "observes_only a s (snd (chain x (ks @ fin) s))"
proof (cases "ks @ fin = []")
  case True
  then show ?thesis by (simp add: observes_only_def new_events_def)
next
  case False
  from trace_after_also_chain [OF assms(1-3), of a s1] obtain es where
    es: "trace (snd (chain (RetRef a) (ks @ fin) s1)) = trace s1 @ es"
        "list_all (\<lambda>e. e = Some a) es"
    by blast
  moreover have "trace s1 = trace s"
    using assms(4) by (rule trace_bind_operand)
  moreover have "chain x (ks @ fin) s = chain (RetRef a) (ks @ fin) s1"
    using assms(4) False by (rule chain_from_bound_operand)
  ultimately show ?thesis by (simp add: observes_only_def new_events_def)
qed

theorem also_chain_keeps_instance_witness:
  "observes_only 0 \<lparr>mem = [Person ''Alice'' ''London'' 20], trace = []\<rparr>
     (snd (chain (RetRef 0) ([DotAlso clear_location, BarAlso clear_location] @ [BarLet return_it])
        \<lparr>mem = [Person ''Alice'' ''London'' 20], trace = []\<rparr>))"
  using also_chain_keeps_instance
    [of "[DotAlso clear_location, BarAlso clear_location]" "[BarLet return_it]"
        "RetRef 0" "\<lparr>mem = [Person ''Alice'' ''London'' 20], trace = []\<rparr>" True 0
        "\<lparr>mem = [Person ''Alice'' ''London'' 20], trace = []\<rparr>"]
  by simp

text \<open>
  C3 as stated fails. A \<^verbatim>\<open>let\<close> link returns its callable's result by value, and
  the next link is applied to that new object: in
  \<^verbatim>\<open>vec | let(push_back_4) | let(max_element)\<close>, the chain of the test
  \<^verbatim>\<open>CrazyMacrosTest\<close>, with \<open>vec\<close> at address 0, the second callable is handed the
  temporary at address 1. It is so even when the callable of the \<^verbatim>\<open>let\<close> returns a
  reference to the object it was given: in \<^verbatim>\<open>person | let(return_it) | also(...)\<close>
  the second callable is handed a copy.
\<close>

theorem let_chain_changes_instance:
  "list_all receives_argument [BarLet push_back_4, BarLet max_element]
   \<and> \<not> observes_only 0 \<lparr>mem = [Vec [1, 2, 3]], trace = []\<rparr>
        (snd (chain (RetRef 0) [BarLet push_back_4, BarLet max_element]
           \<lparr>mem = [Vec [1, 2, 3]], trace = []\<rparr>))
   \<and> list_all receives_argument [BarLet return_it, BarAlso clear_location]
   \<and> \<not> observes_only 0 \<lparr>mem = [Person ''Alice'' ''London'' 20], trace = []\<rparr>
        (snd (chain (RetRef 0) [BarLet return_it, BarAlso clear_location]
           \<lparr>mem = [Person ''Alice'' ''London'' 20], trace = []\<rparr>))"
  by (simp add: observes_only_def new_events_def bar_let_lref_def bar_let_rref_def
      bar_also_rref_def let_call_def also_call_def call1_def push_back_4_def
      max_element_def return_it_def clear_location_def)

text \<open>
  C4. Constructing \<^verbatim>\<open>with\<close> runs the callable once, at construction, but what the
  construction yields is the wrapper: the callable's result is dropped by
  \<^verbatim>\<open>std::invoke(*this);\<close>. With the counting callable on a counter at 0, the
  construction leaves the counter at 1 and yields the wrapper, not the 1 the callable
  returned; the one way to a result is to call the wrapper, which runs the callable a
  second time and returns 2. The header's comment on \<^verbatim>\<open>with\<close> says that it
  \<^verbatim>\<open>returns the lambda result\<close>. The rest of the claim holds: the callable runs once
  at construction, and \<^verbatim>\<open>x | with(lambda)\<close> finds no operator.
\<close>

theorem with_discards_result:
  "with_ctor (count_up 0) \<lparr>mem = [Num 0], trace = []\<rparr> =
     (Returns (WithWrapper (count_up 0)), \<lparr>mem = [Num 1], trace = [None]\<rparr>)
   \<and> with_call (WithWrapper (count_up 0)) \<lparr>mem = [Num 1], trace = [None]\<rparr> =
     (Returns (RetValue (Num 2)), \<lparr>mem = [Num 2], trace = [None, None]\<rparr>)
   \<and> bar_with_check (object_type ''int'') (lambda_type_no_params (object_type ''int'')) =
     [NoMatchingOperator]"
  by (simp add: with_ctor_def with_call_def call0_def count_up_def bar_with_check_def
      with_wrapper_check_def LambdaReflectionNoArg_def std_function_def
      lambda_type_no_params_def)

text \<open>
  C5. Every application of a combinator calls its callable exactly once before it
  returns: the state it returns has exactly one more entry in the trace than the
  state it was given, and its memory is the memory one run of the callable leaves.
  This holds for the four members of the mixin, the call operators of the wrappers,
  the constructor of \<^verbatim>\<open>with\<close>, and every link of a chain (both overloads of each
  chaining operator), and it holds however the callable ends.
\<close>

theorem one_invocation_per_application:
  "snd (ScopeFunctions_let f a s) = \<lparr>mem = snd (f a (mem s)), trace = trace s @ [Some a]\<rparr>
 \<and> snd (ScopeFunctions_run g a s) = \<lparr>mem = snd (g (mem s)), trace = trace s @ [None]\<rparr>
 \<and> snd (ScopeFunctions_apply g a s) = \<lparr>mem = snd (g (mem s)), trace = trace s @ [None]\<rparr>
 \<and> snd (ScopeFunctions_also f a s) = \<lparr>mem = snd (f a (mem s)), trace = trace s @ [Some a]\<rparr>
 \<and> snd (let_call (LetWrapper f) a s) = \<lparr>mem = snd (f a (mem s)), trace = trace s @ [Some a]\<rparr>
 \<and> snd (run_call (RunWrapper g) s) = \<lparr>mem = snd (g (mem s)), trace = trace s @ [None]\<rparr>
 \<and> snd (also_call (AlsoWrapper f) a s) = \<lparr>mem = snd (f a (mem s)), trace = trace s @ [Some a]\<rparr>
 \<and> snd (with_ctor g s) = \<lparr>mem = snd (g (mem s)), trace = trace s @ [None]\<rparr>
 \<and> snd (with_call (WithWrapper g) s) = \<lparr>mem = snd (g (mem s)), trace = trace s @ [None]\<rparr>
 \<and> snd (apply_link lv a k s) =
       \<lparr>mem = snd (callable_of k a (mem s)),
          trace = trace s @ [if receives_argument k then Some a else None]\<rparr>"
  by (simp add: state_after_let state_after_run state_after_apply
      state_after_also state_after_let_call state_after_run_call state_after_also_call
      state_after_with_ctor state_after_with_call state_after_link)

theorem one_invocation_per_application_witness:
  "snd (ScopeFunctions_run (count_up 0) 0 \<lparr>mem = [Num 0], trace = [None]\<rparr>) =
     \<lparr>mem = [Num 1], trace = [None, None]\<rparr>
   \<and> snd (ScopeFunctions_apply (count_up 0) 0 \<lparr>mem = [Num 0], trace = [None]\<rparr>) =
     \<lparr>mem = [Num 1], trace = [None, None]\<rparr>
   \<and> snd (apply_link True 0 (BarRun (count_up 0)) \<lparr>mem = [Num 0], trace = [None]\<rparr>) =
     \<lparr>mem = [Num 1], trace = [None, None]\<rparr>"
  using one_invocation_per_application
    [of return_it 0 "\<lparr>mem = [Num 0], trace = [None]\<rparr>" "count_up 0" True
        "BarRun (count_up 0)"]
  by (simp add: count_up_def)

text \<open>
  C6. When the callable's parameter type and the type \<open>T\<close> of the host (for the
  mixin, its \<open>Base\<close>) or of the left operand (for the chaining operator) differ
  after references and qualifiers are stripped, the compiler rejects the use with
  the \<^verbatim>\<open>static_assert\<close> message of that combinator: it is the one diagnostic for
  the mixin's \<^verbatim>\<open>let\<close> and \<^verbatim>\<open>also\<close>, and among the diagnostics of
  \<^verbatim>\<open>operand | let(lambda)\<close> and \<^verbatim>\<open>operand | also(lambda)\<close>. A rejected use has no
  instantiation to run, and the outcomes of the run-time side have no case for a
  type mismatch.
\<close>

theorem parameter_mismatch_rejected:
  assumes "params L = [p]" and "base_type (ptype p) \<noteq> base_type T"
  shows "ScopeFunctions_let_check T L = [StaticAssert let_message]
       \<and> ScopeFunctions_also_check T L = [StaticAssert also_message]
       \<and> StaticAssert let_message \<in> set (bar_let_check T L)
       \<and> StaticAssert bar_also_message \<in> set (bar_also_check T L)"
proof -
  have r: "LambdaReflection L =
      Some \<lparr>return_type = base_type (ret L), argument_type = base_type (ptype p)\<rparr>"
    using assms(1) by (simp add: LambdaReflection_Some)
  have ne: "base_type (ptype p) \<noteq> T"
    using assms(2) base_type_eq_self [of "ptype p" T] by auto
  then have ne': "T \<noteq> base_type (ptype p)" by auto
  show ?thesis
    using r ne ne'
    by (simp add: ScopeFunctions_let_check_def ScopeFunctions_also_check_def
        bar_let_check_def bar_also_check_def)
qed

theorem parameter_mismatch_rejected_witness:
  "ScopeFunctions_let_check (object_type ''Person'')
     (lambda_type (lvalue_ref (object_type ''int'')) void_type) =
     [StaticAssert ''Scope function `let` argument type must match context object type'']
   \<and> StaticAssert
        ''Scope function `also` argument type must match return type which is the context object type''
       \<in> set (bar_also_check (object_type ''Person'')
                (lambda_type (lvalue_ref (object_type ''int'')) void_type))"
  using parameter_mismatch_rejected
    [of "lambda_type (lvalue_ref (object_type ''int'')) void_type"
        "\<lparr>ptype = lvalue_ref (object_type ''int''), has_default = False\<rparr>"
        "object_type ''Person''"]
  by (simp add: base_type_def remove_cv_def remove_reference_def let_message_def
      bar_also_message_def lambda_type_def lvalue_ref_def object_type_def)

text \<open>
  C7 (as amended). A callable that declares a parameter is rejected by the mixin's
  \<^verbatim>\<open>run\<close>, by the freestanding \<^verbatim>\<open>run\<close> (alone or in a chain) and by \<^verbatim>\<open>with\<close>:
  \<^verbatim>\<open>LambdaReflectionNoArg\<close> deduces nothing from it. The mixin's \<^verbatim>\<open>apply\<close> does not
  use the introspector; it rejects the callable exactly when \<^verbatim>\<open>lambda()\<close> is
  ill-formed, that is when some parameter has no default argument.
\<close>

theorem arity_mismatch_rejected:
  assumes "params L \<noteq> []"
  shows "ScopeFunctions_run_check Base L = [DeductionFailure]
       \<and> run_wrapper_check L = [DeductionFailure]
       \<and> bar_run_check T L = [DeductionFailure]
       \<and> with_wrapper_check L = [DeductionFailure]
       \<and> (ScopeFunctions_apply_check Base L = [NotInvocable]) =
           (\<not> list_all has_default (params L))
       \<and> (ScopeFunctions_apply_check Base L = []) = list_all has_default (params L)"
proof -
  have "LambdaReflectionNoArg L = None"
  proof (cases "LambdaReflectionNoArg L")
    case None
    then show ?thesis .
  next
    case (Some rt)
    then have "params L = []" by (simp add: LambdaReflectionNoArg_Some)
    with assms show ?thesis by simp
  qed
  then show ?thesis
    by (simp add: ScopeFunctions_run_check_def run_wrapper_check_def bar_run_check_def
        with_wrapper_check_def ScopeFunctions_apply_check_def invocable_no_args_def)
qed

theorem arity_mismatch_rejected_witness:
  "ScopeFunctions_run_check (object_type ''Person'')
     (lambda_type (lvalue_ref (object_type ''Person'')) void_type) = [DeductionFailure]
   \<and> with_wrapper_check (lambda_type (lvalue_ref (object_type ''Person'')) void_type) =
     [DeductionFailure]
   \<and> ScopeFunctions_apply_check (object_type ''Person'')
     (lambda_type (lvalue_ref (object_type ''Person'')) void_type) = [NotInvocable]"
  using arity_mismatch_rejected
    [of "lambda_type (lvalue_ref (object_type ''Person'')) void_type" "object_type ''Person''"]
  by (simp add: lambda_type_def)

text \<open>
  C7 as stated fails for the mixin's \<^verbatim>\<open>apply\<close>: a lambda with one parameter that
  has a default argument, \<^verbatim>\<open>[](int n = 0) { ... }\<close>, does not take zero parameters,
  and \<^verbatim>\<open>person.apply\<close> accepts it, since \<^verbatim>\<open>lambda()\<close> is well-formed.
\<close>

theorem apply_accepts_defaulted_parameter:
  "params (lambda_type_defaulted (object_type ''int'') void_type) \<noteq> []
   \<and> ScopeFunctions_apply_check (object_type ''Person'')
       (lambda_type_defaulted (object_type ''int'') void_type) = []"
  by (simp add: ScopeFunctions_apply_check_def invocable_no_args_def
      lambda_type_defaulted_def)

text \<open>
  C8 (as amended). When no \<^verbatim>\<open>let\<close> or \<^verbatim>\<open>run\<close> step hands on a reference,
  evaluating a chain through the wrappers, the overloads of the chaining operator and
  the members of the mixin gives the same outcome and leaves the same memory as
  applying the same callables by hand, link by link from the left. The witness is
  the pipeline of \<^verbatim>\<open>MixingFunctionsTest\<close>: the chain yields a reference to the
  object at address 2, which holds 8, and so does the application by hand.
\<close>

theorem chain_refines_manual:
  assumes "hands_on_values x ks (mem s)"
  shows "manual x ks (mem s) = (fst (chain x ks s), mem (snd (chain x ks s)))"
  using assms
proof (induction ks arbitrary: x s)
  case Nil
  show ?case by simp
next
  case (Cons k ks)
  show ?case
  proof (cases "bind_operand x s")
    case None
    then show ?thesis by (simp add: hold_bind_operand)
  next
    case (Some b)
    then obtain lv a s1 where b: "bind_operand x s = Some (lv, a, s1)"
      by (cases b) auto
    obtain out s2 where l: "apply_link lv a k s1 = (out, s2)"
      by (cases "apply_link lv a k s1")
    obtain cout m2 where c: "callable_of k a (mem s1) = (cout, m2)"
      by (cases "callable_of k a (mem s1)")
    have m2: "mem s2 = m2"
      using state_after_link [of lv a k s1] l c by simp
    show ?thesis
    proof (cases cout)
      case (Returns r)
      from Cons.prems b c Returns
      have shape: "case r of RetRef b \<Rightarrow> returns_self k | RetValue v \<Rightarrow> True | RetVoid \<Rightarrow> True"
        and rest: "hands_on_values (step_output k a r) ks m2"
        by (simp_all add: hold_bind_operand)
      have "out = Returns (step_output k a r)"
        using apply_link_outcome [of lv a k s1] l c Returns shape
        by (cases r) (simp_all add: step_output_def)
      with Returns b l c m2 Cons.IH [of "step_output k a r" s2] rest show ?thesis
        by (simp add: hold_bind_operand)
    next
      case (Throws e)
      then have "out = Throws e"
        using apply_link_outcome [of lv a k s1] l c by simp
      with Throws b l c m2 show ?thesis by (simp add: hold_bind_operand)
    next
      case Undefined
      then have "out = Undefined"
        using apply_link_outcome [of lv a k s1] l c by simp
      with Undefined b l c m2 show ?thesis by (simp add: hold_bind_operand)
    qed
  qed
qed

theorem chain_refines_manual_witness:
  "hands_on_values (RetValue (Vec [1, 2, 3]))
     [BarLet push_back_4, BarLet max_element, BarAlso double_it] []
   \<and> chain (RetValue (Vec [1, 2, 3])) [BarLet push_back_4, BarLet max_element, BarAlso double_it]
     \<lparr>mem = [], trace = []\<rparr> =
     (Returns (RetRef 2),
      \<lparr>mem = [Vec [1, 2, 3, 4], Vec [1, 2, 3, 4], Num 8], trace = [Some 0, Some 1, Some 2]\<rparr>)
   \<and> manual (RetValue (Vec [1, 2, 3])) [BarLet push_back_4, BarLet max_element, BarAlso double_it]
       [] = (Returns (RetRef 2), [Vec [1, 2, 3, 4], Vec [1, 2, 3, 4], Num 8])"
proof -
  have h: "hands_on_values (RetValue (Vec [1, 2, 3]))
             [BarLet push_back_4, BarLet max_element, BarAlso double_it] []"
    by (simp add: push_back_4_def max_element_def double_it_def step_output_def)
  have c: "chain (RetValue (Vec [1, 2, 3]))
             [BarLet push_back_4, BarLet max_element, BarAlso double_it]
             \<lparr>mem = [], trace = []\<rparr> =
           (Returns (RetRef 2),
            \<lparr>mem = [Vec [1, 2, 3, 4], Vec [1, 2, 3, 4], Num 8],
               trace = [Some 0, Some 1, Some 2]\<rparr>)"
    by (simp add: bar_let_rref_def bar_also_rref_def let_call_def also_call_def call1_def
        push_back_4_def max_element_def double_it_def)
  from chain_refines_manual
         [of "RetValue (Vec [1, 2, 3])"
             "[BarLet push_back_4, BarLet max_element, BarAlso double_it]"
             "\<lparr>mem = [], trace = []\<rparr>"]
       h
  show ?thesis unfolding c by simp
qed

text \<open>
  C8 as stated fails. \<^verbatim>\<open>let\<close> returns by value, so where its callable returns a
  reference the chain hands a copy to the next link, while the application by hand
  hands on what the callable returned. In
  \<^verbatim>\<open>x | let(return_it) | also(double_it) | run(count_up)\<close>, with \<open>x\<close> the number 1
  at address 0 and the counter of \<^verbatim>\<open>count_up\<close> being \<open>x\<close> itself, the chain doubles
  a copy of \<open>x\<close> and ends with 2; by hand, \<open>x\<close> itself is doubled and the end is 3.
\<close>

theorem chain_copies_reference_result:
  "chain (RetRef 0) [BarLet return_it, BarAlso double_it, BarRun (count_up 0)]
     \<lparr>mem = [Num 1], trace = []\<rparr> =
     (Returns (RetValue (Num 2)), \<lparr>mem = [Num 2, Num 2], trace = [Some 0, Some 1, None]\<rparr>)
   \<and> manual (RetRef 0) [BarLet return_it, BarAlso double_it, BarRun (count_up 0)] [Num 1] =
     (Returns (RetValue (Num 3)), [Num 3])"
  by (simp add: bar_let_lref_def bar_also_rref_def bar_run_lref_def let_call_def also_call_def
      run_call_def call1_def call0_def return_it_def double_it_def count_up_def
      step_output_def)

text \<open>
  C9. When the callable throws, every combinator ends exactly as the direct call of
  the callable does: with the same exception and the state the direct call leaves
  (the memory as the callable left it, one entry added to the trace). For
  \<^verbatim>\<open>let\<close>, \<^verbatim>\<open>also\<close>, \<^verbatim>\<open>run\<close>, \<^verbatim>\<open>apply\<close> and the call operators of the
  wrappers the two are equal; the constructor of \<^verbatim>\<open>with\<close> ends with the same
  exception and state; a chain ends at the link whose callable threw, with that
  exception and that memory, and runs no later link.
\<close>

theorem exception_propagates_unchanged:
  assumes "f a (mem s) = (Throws e, m')" and "g (mem s) = (Throws e0, m0)"
      and "bind_operand x s0 = Some (lv, b, s1)" and "callable_of k b (mem s1) = (Throws e1, m1)"
  shows "ScopeFunctions_let f a s = call1 f a s
       \<and> ScopeFunctions_also f a s = call1 f a s
       \<and> let_call (LetWrapper f) a s = call1 f a s
       \<and> also_call (AlsoWrapper f) a s = call1 f a s
       \<and> call1 f a s = (Throws e, \<lparr>mem = m', trace = trace s @ [Some a]\<rparr>)
       \<and> ScopeFunctions_run g a s = call0 g s
       \<and> ScopeFunctions_apply g a s = call0 g s
       \<and> run_call (RunWrapper g) s = call0 g s
       \<and> with_call (WithWrapper g) s = call0 g s
       \<and> with_ctor g s = (Throws e0, \<lparr>mem = m0, trace = trace s @ [None]\<rparr>)
       \<and> call0 g s = (Throws e0, \<lparr>mem = m0, trace = trace s @ [None]\<rparr>)
       \<and> fst (chain x (k # ks) s0) = Throws e1
       \<and> mem (snd (chain x (k # ks) s0)) = m1
       \<and> length (new_events s0 (snd (chain x (k # ks) s0))) = 1"
proof -
  have "fst (apply_link lv b k s1) = Throws e1"
    using assms(4) by (simp add: apply_link_outcome)
  moreover have "snd (apply_link lv b k s1) =
      \<lparr>mem = m1, trace = trace s0 @ [if receives_argument k then Some b else None]\<rparr>"
    using assms(3,4) by (simp add: state_after_link trace_bind_operand)
  ultimately have "chain x (k # ks) s0 =
      (Throws e1, \<lparr>mem = m1, trace = trace s0 @ [if receives_argument k then Some b else None]\<rparr>)"
    using assms(3) by (cases "apply_link lv b k s1") simp
  then show ?thesis
    using assms(1,2)
    by (simp add: ScopeFunctions_let_def ScopeFunctions_also_def ScopeFunctions_run_def
        ScopeFunctions_apply_def let_call_def also_call_def run_call_def with_call_def
        with_ctor_def call1_def call0_def new_events_def)
qed


theorem exception_propagates_unchanged_witness:
  "ScopeFunctions_let (clear_then_throw ''boom'') 0
      \<lparr>mem = [Person ''Alice'' ''London'' 20], trace = []\<rparr> =
     (Throws (Exn ''boom''), \<lparr>mem = [Person [] ''London'' 20], trace = [Some 0]\<rparr>)
   \<and> ScopeFunctions_apply (throwing ''boom'') 0
      \<lparr>mem = [Person ''Alice'' ''London'' 20], trace = []\<rparr> =
     (Throws (Exn ''boom''), \<lparr>mem = [Person ''Alice'' ''London'' 20], trace = [None]\<rparr>)
   \<and> fst (chain (RetValue (Person ''Bob'' ''Paris'' 3))
          [BarAlso (clear_then_throw ''boom''), BarAlso clear_location]
          \<lparr>mem = [], trace = []\<rparr>) = Throws (Exn ''boom'')
   \<and> mem (snd (chain (RetValue (Person ''Bob'' ''Paris'' 3))
          [BarAlso (clear_then_throw ''boom''), BarAlso clear_location]
          \<lparr>mem = [], trace = []\<rparr>)) = [Person [] ''Paris'' 3]"
  using exception_propagates_unchanged
    [of "clear_then_throw ''boom''" 0 "\<lparr>mem = [Person ''Alice'' ''London'' 20], trace = []\<rparr>"
        "Exn ''boom''" "[Person [] ''London'' 20]"
        "throwing ''boom''" "Exn ''boom''" "[Person ''Alice'' ''London'' 20]"
        "RetValue (Person ''Bob'' ''Paris'' 3)" "\<lparr>mem = [], trace = []\<rparr>" False 0
        "\<lparr>mem = [Person ''Bob'' ''Paris'' 3], trace = []\<rparr>"
        "BarAlso (clear_then_throw ''boom'')" "Exn ''boom''" "[Person [] ''Paris'' 3]"
        "[BarAlso clear_location]"]
  by (simp add: clear_then_throw_def throwing_def call1_def call0_def)



section \<open>Further properties\<close>

text \<open>
  The second half of \<^verbatim>\<open>MixingFunctionsTest\<close>:
  \<^verbatim>\<open>person.apply(set age to 8).apply(clear name).also(clear location)\<close> on
  \<open>{name: "Alice", location: "London", age: 20}\<close> leaves
  \<open>{name: "", location: "", age: 8}\<close> in the person's own cell and yields a
  reference to it.
\<close>

theorem mixin_chain_on_person:
  "chain (RetRef 0) [DotApply (set_age 0 8), DotApply (clear_name 0), DotAlso clear_location]
     \<lparr>mem = [Person ''Alice'' ''London'' 20], trace = []\<rparr> =
   (Returns (RetRef 0), \<lparr>mem = [Person [] [] 8], trace = [None, None, Some 0]\<rparr>)"
  by (simp add: ScopeFunctions_apply_def ScopeFunctions_also_def call0_def call1_def
      set_age_def clear_name_def clear_location_def)

text \<open>
  The chaining operator compares the deduced \<open>T\<close> itself, qualifiers included, with
  the callable's stripped parameter type. A left operand whose type is qualified
  (a \<^verbatim>\<open>const\<close> object, say) is therefore rejected by \<^verbatim>\<open>let\<close> and \<^verbatim>\<open>also\<close> whatever
  one-parameter callable is given, also one taking \<^verbatim>\<open>const T&\<close>.
\<close>

theorem qualified_operand_rejected:
  assumes "params L = [p]" and "T \<noteq> base_type T"
  shows "StaticAssert let_message \<in> set (bar_let_check T L)
       \<and> StaticAssert bar_also_message \<in> set (bar_also_check T L)"
proof -
  have r: "LambdaReflection L =
      Some \<lparr>return_type = base_type (ret L), argument_type = base_type (ptype p)\<rparr>"
    using assms(1) by (simp add: LambdaReflection_Some)
  have "T \<noteq> base_type (ptype p)"
    using assms(2) base_type_idem [of "ptype p"] by auto
  with r show ?thesis
    by (simp add: bar_let_check_def bar_also_check_def)
qed

theorem qualified_operand_rejected_witness:
  "StaticAssert ''Scope function `let` argument type must match context object type''
     \<in> set (bar_let_check (const_of (object_type ''Person''))
              (lambda_type (lvalue_ref (const_of (object_type ''Person''))) void_type))"
  using qualified_operand_rejected
    [of "lambda_type (lvalue_ref (const_of (object_type ''Person''))) void_type"
        "\<lparr>ptype = lvalue_ref (const_of (object_type ''Person'')), has_default = False\<rparr>"
        "const_of (object_type ''Person'')"]
  by (simp add: base_type_def remove_cv_def remove_reference_def let_message_def
      lambda_type_def lvalue_ref_def const_of_def object_type_def)

end
